theory Spec2Isabelle
  imports
    Main
    "HOL-Library.Word"
    "HOL-Library.Sublist"
    "HOL-Library.Char_ord"
    "HOL-Library.List_Lexorder"
begin

section \<open>The goGeo HTTP gateway (main.go)\<close>

text \<open>
  The program is one Go file: three HTTP handlers behind a gorilla/mux router with one
  logging middleware, a helper that reads configuration from the process environment, a
  helper that calls the external geocoding provider, and a \<open>main\<close> function that starts the
  server in a goroutine and waits for a termination signal.

  The embedding is shallow. Every effect of the source is explicit:
  \<^item> output through package \<open>log\<close> and through \<open>fmt.Println\<close>, and the
    \<open>http.ResponseWriter\<close> of the request being served, are fields of a state record that
    each function takes and returns;
  \<^item> a Go run-time panic is a value of type \<open>panic\<close>, returned instead of a result;
  \<^item> everything the program reads from outside its own source (the process environment,
    the file system, the network, the JSON codec of \<open>encoding/json\<close>, the route matcher of
    gorilla/mux) is a field of the record \<open>env\<close>, so that theorems hold for every behaviour
    of these collaborators.
\<close>

subsection \<open>Data model\<close>

type_synonym bytes = string

text \<open>A Go \<open>error\<close> is represented by its message; \<open>nil\<close> is \<open>None\<close>.\<close>

type_synonym error = string

text \<open>
  A \<open>float64\<close> is carried as its IEEE-754 bit pattern: the program never computes with
  the coordinates, it only moves them between the decoder and the encoder.
\<close>

type_synonym float64 = "64 word"

record location =
  Lat :: float64
  Lng :: float64

record geometry =
  Location :: location
  LocationType :: string

record result =
  Geometry :: geometry
  Address :: string

record response =
  Results :: "result list"
  Status :: string

text \<open>The zero value that \<open>var resp response\<close> declares.\<close>

definition response_zero :: response where
  "response_zero = \<lparr>Results = [], Status = ''''\<rparr>"

type_synonym serviceParamName = string

definition serviceParamNameLatLng :: serviceParamName where
  "serviceParamNameLatLng = ''latlng''"

definition serviceParamNameAddress :: serviceParamName where
  "serviceParamNameAddress = ''address''"

subsection \<open>Panics\<close>

datatype panic =
    IndexOutOfRange nat nat  \<comment> \<open>index and length\<close>
  | NilPointerDereference

datatype outcome = Returned | Panicked panic

text \<open>Go's \<open>xs[i]\<close> on a slice: a run-time panic when \<open>i\<close> is not below the length.\<close>

definition index_slice :: "'a list \<Rightarrow> nat \<Rightarrow> panic + 'a" where
  "index_slice xs i =
     (if i < length xs then Inr (xs ! i) else Inl (IndexOutOfRange i (length xs)))"

subsection \<open>Output: the logger, standard output, the response writer\<close>

datatype signal = Interrupt | Kill

text \<open>
  One constructor for each call of package \<open>log\<close> in the source; \<open>render\<close> gives the
  text that the call formats (the logger's own date and time prefix is left out).
\<close>

datatype log_entry =
    AboutToCall string
  | Listening string
  | ListenAndServeError error
  | ReceivedTerminate signal
  | RequestLine string string
  | UnmarshalError error

definition tab :: char where
  "tab = CHR 0x09"

definition nl :: char where
  "nl = CHR 0x0A"

fun signal_String :: "signal \<Rightarrow> string" where
  "signal_String Interrupt = ''interrupt''"
| "signal_String Kill = ''killed''"

text \<open>
  \<open>log.Println\<close> separates its operands by a space and ends the line;
  \<open>log.Printf\<close> follows its format string.
\<close>

fun render :: "log_entry \<Rightarrow> string" where
  "render (AboutToCall url) = ''About to call: '' @ '' '' @ url @ [nl]"
| "render (Listening addr) = ''Listening on '' @ '' '' @ addr @ [nl]"
| "render (ListenAndServeError e) = ''Error on ListenAndServe: '' @ '' '' @ e @ [nl]"
| "render (ReceivedTerminate s) =
     ''FRecieved terminate, graceful shutdown '' @ '' '' @ signal_String s @ [nl]"
| "render (RequestLine m u) = [tab] @ m @ '' '' @ [tab] @ '' '' @ u @ '' '' @ [nl]"
| "render (UnmarshalError e) = ''Error on Unmarshal1: '' @ '' '' @ e @ [nl]"


text \<open>
  The \<open>http.ResponseWriter\<close> of one request. \<open>wstatus\<close> is \<open>None\<close> until the status
  line is committed. As in net/http, the first \<open>WriteHeader\<close> wins and a later one is
  ignored, and a \<open>Write\<close> before any \<open>WriteHeader\<close> commits status 200.
\<close>

record ResponseWriter =
  wstatus :: "nat option"
  wbody :: bytes

definition fresh_writer :: ResponseWriter where
  "fresh_writer = \<lparr>wstatus = None, wbody = []\<rparr>"

definition StatusOK :: nat where
  "StatusOK = 200"

definition WriteHeader :: "nat \<Rightarrow> ResponseWriter \<Rightarrow> ResponseWriter" where
  "WriteHeader code w = (if wstatus w = None then w\<lparr>wstatus := Some code\<rparr> else w)"

definition Write :: "bytes \<Rightarrow> ResponseWriter \<Rightarrow> ResponseWriter" where
  "Write b w = (let w' = WriteHeader StatusOK w in w'\<lparr>wbody := wbody w' @ b\<rparr>)"

record world =
  rw :: ResponseWriter
  logger :: "log_entry list"
  stdout :: "string list"

definition log_emit :: "log_entry \<Rightarrow> world \<Rightarrow> world" where
  "log_emit e st = st\<lparr>logger := logger st @ [e]\<rparr>"

text \<open>\<open>fmt.Println(err)\<close>: the error's message and a newline on standard output.\<close>

definition fmt_Println :: "error \<Rightarrow> world \<Rightarrow> world" where
  "fmt_Println e st = st\<lparr>stdout := stdout st @ [e @ [nl]]\<rparr>"

subsection \<open>The collaborators outside the source\<close>

record http_Response =
  StatusCode :: nat
  Body :: "bytes \<times> error option"  \<comment> \<open>what \<open>ioutil.ReadAll\<close> returns on the body\<close>

record request =
  Method :: string
  RequestURI :: string
  Vars :: "(string \<times> string) list"  \<comment> \<open>what \<open>mux.Vars\<close> returns for the request\<close>

record env =
  LookupEnv :: "string \<Rightarrow> string option"
  ReadFile :: "string \<Rightarrow> bytes \<times> error option"
  Unmarshal :: "bytes \<Rightarrow> response \<Rightarrow> response \<times> error option"
  Marshal :: "result \<Rightarrow> bytes \<times> error option"
  Get :: "string \<Rightarrow> http_Response option \<times> error option"
  RouteMatch :: "string \<Rightarrow> request \<Rightarrow> (string \<times> string) list option"
  NoRoute :: "request \<Rightarrow> world \<Rightarrow> outcome \<times> world"

subsection \<open>Configuration\<close>

definition DefaultENV :: "env \<Rightarrow> string \<Rightarrow> string \<Rightarrow> string" where
  "DefaultENV e key fallback =
     (case LookupEnv e key of Some val \<Rightarrow> val | None \<Rightarrow> fallback)"

definition bindAddress :: "env \<Rightarrow> string" where
  "bindAddress e = DefaultENV e ''BIND_ADDRESS'' '':5000''"

definition googleAPIKey :: "env \<Rightarrow> string" where
  "googleAPIKey e = DefaultENV e ''GOOGLE_API_KEY'' ''''"

subsection \<open>The external geocoding call\<close>

definition geoServiceUrl :: "string \<Rightarrow> serviceParamName \<Rightarrow> string \<Rightarrow> string" where
  "geoServiceUrl apiKey paramName paramValue =
     ''https://maps.googleapis.com/maps/api/geocode/json?'' @ paramName @ ''='' @ paramValue
       @ ''&key='' @ apiKey"

text \<open>
  \<open>http.Get\<close> returns a pointer to a response and an error. The source prints the error
  and goes on; the next statement, \<open>defer resp.Body.Close()\<close>, reads the field \<open>Body\<close>
  through that pointer, which panics when the pointer is nil.
\<close>

definition callExternalService ::
    "env \<Rightarrow> serviceParamName \<Rightarrow> string \<Rightarrow> world \<Rightarrow> (panic + bytes) \<times> world" where
  "callExternalService e serviceName param st =
     (let url = geoServiceUrl (googleAPIKey e) serviceName param;
          st1 = log_emit (AboutToCall url) st;
          (resp, err) = Get e url;
          st2 = (case err of Some msg \<Rightarrow> fmt_Println msg st1 | None \<Rightarrow> st1)
      in case resp of
           None \<Rightarrow> (Inl NilPointerDereference, st2)
         | Some rsp \<Rightarrow>
             (let (body, err2) = Body rsp;
                  st3 = (case err2 of Some msg \<Rightarrow> fmt_Println msg st2 | None \<Rightarrow> st2)
              in (Inr body, st3)))"

definition MockService :: "env \<Rightarrow> world \<Rightarrow> bytes \<times> world" where
  "MockService e st =
     (let (resp, err) = ReadFile e ''data/LA.json'';
          st1 = (case err of Some msg \<Rightarrow> fmt_Println msg st | None \<Rightarrow> st)
      in (resp, st1))"

subsection \<open>Handlers and middleware\<close>

type_synonym handler = "env \<Rightarrow> request \<Rightarrow> world \<Rightarrow> outcome \<times> world"

definition LoggingMiddleware :: "handler \<Rightarrow> handler" where
  "LoggingMiddleware next e r st =
     next e r (log_emit (RequestLine (Method r) (RequestURI r)) st)"

definition liveness :: bytes where
  "liveness = ''Server is up and running!'' @ [nl]"

definition HomeHandler :: handler where
  "HomeHandler e r st =
     (let st1 = st\<lparr>rw := WriteHeader StatusOK (rw st)\<rparr>;
          st2 = st1\<lparr>rw := Write liveness (rw st1)\<rparr>
      in (Returned, st2))"

text \<open>
  The handler takes its payload from \<open>MockService\<close>; the call of
  \<open>callExternalService\<close> with the request's \<open>address\<close> is commented out in the source,
  so the request is never read. The handler logs a decoding error and goes on, commits
  the status, then indexes \<open>resp.Results[0]\<close> without a check, then serialises; the
  error of \<open>json.Marshal\<close> is assigned and never read.
\<close>

definition GeocodeHandler :: handler where
  "GeocodeHandler e r st =
     (let (raw, st1) = MockService e st;
          (resp, err) = Unmarshal e raw response_zero;
          st2 = (case err of Some msg \<Rightarrow> log_emit (UnmarshalError msg) st1 | None \<Rightarrow> st1);
          st3 = st2\<lparr>rw := WriteHeader StatusOK (rw st2)\<rparr>
      in case index_slice (Results resp) 0 of
           Inl p \<Rightarrow> (Panicked p, st3)
         | Inr first \<Rightarrow>
             (let (out, err2) = Marshal e first
              in (Returned, st3\<lparr>rw := Write out (rw st3)\<rparr>)))"

text \<open>
  \<open>fmt.Sprintf("%s\n", vars)\<close> on a \<open>map[string]string\<close>: the entries as \<open>key:value\<close>,
  in the order of the keys (bytewise, as Go compares strings), separated by spaces,
  between \<open>map[\<close> and \<open>]\<close>. The map is an association list with one entry for
  each key.
\<close>

definition fmt_entry :: "string \<times> string \<Rightarrow> string" where
  "fmt_entry kv = fst kv @ '':'' @ snd kv"

fun join_space :: "string list \<Rightarrow> string" where
  "join_space [] = []"
| "join_space [x] = x"
| "join_space (x # y # ys) = x @ '' '' @ join_space (y # ys)"

definition fmt_map :: "(string \<times> string) list \<Rightarrow> string" where
  "fmt_map m = ''map['' @ join_space (map fmt_entry (sort_key fst m)) @ '']''"

definition GeolocHandler :: handler where
  "GeolocHandler e r st =
     (let vars = Vars r;
          st1 = st\<lparr>rw := WriteHeader StatusOK (rw st)\<rparr>;
          st2 = st1\<lparr>rw := Write (fmt_map vars @ [nl]) (rw st1)\<rparr>
      in (Returned, st2))"

subsection \<open>The router\<close>

text \<open>
  \<open>main\<close> registers three routes and one middleware. The router of gorilla/mux takes
  the first registered route whose template matches the request, stores the captured
  path parameters in the request, wraps the route's handler in the middlewares (the
  first one registered outermost) and calls it. Whether a template matches a request,
  and what the router answers when none does, is the library's business: \<open>RouteMatch\<close>
  and \<open>NoRoute\<close> of \<open>env\<close>.
\<close>

definition routes :: "(string \<times> handler) list" where
  "routes =
     [(''/'', HomeHandler),
      (''/geocode/{address}'', GeocodeHandler),
      (''/geoloc/{lat},{lng}'', GeolocHandler)]"

definition middlewares :: "(handler \<Rightarrow> handler) list" where
  "middlewares = [LoggingMiddleware]"

fun match_route ::
    "env \<Rightarrow> (string \<times> handler) list \<Rightarrow> request
       \<Rightarrow> (string \<times> handler \<times> (string \<times> string) list) option" where
  "match_route e [] r = None"
| "match_route e ((tpl, h) # rest) r =
     (case RouteMatch e tpl r of
        Some vs \<Rightarrow> Some (tpl, h, vs)
      | None \<Rightarrow> match_route e rest r)"

definition router_ServeHTTP :: handler where
  "router_ServeHTTP e r st =
     (case match_route e routes r of
        None \<Rightarrow> NoRoute e r st
      | Some (tpl, h, vs) \<Rightarrow> foldr (\<lambda>mw next. mw next) middlewares h e (r\<lparr>Vars := vs\<rparr>) st)"

subsection \<open>Process lifecycle\<close>

text \<open>\<open>time.Duration\<close> counts nanoseconds.\<close>

definition Second :: nat where
  "Second = 1000000000"

record http_Server =
  Handler :: handler
  Addr :: string
  WriteTimeout :: nat
  ReadTimeout :: nat
  IdleTimeout :: nat

definition srv :: "env \<Rightarrow> http_Server" where
  "srv e =
     \<lparr>Handler = router_ServeHTTP,
      Addr = bindAddress e,
      WriteTimeout = Second * 15,
      ReadTimeout = Second * 15,
      IdleTimeout = Second * 60\<rparr>"

text \<open>
  \<open>main\<close> runs two flows of control: the goroutine that calls \<open>ListenAndServe\<close>, and
  the main flow, which blocks on the signal channel and then calls \<open>Shutdown\<close>. The
  process is a state machine over the program points at which either flow can wait;
  an event is what the scheduler, the operating system or the server library does next.
  An event that is not enabled in a state leaves the state as it is. When \<open>main\<close> returns
  the process is gone, so no event changes the state after \<open>Exited\<close>.
\<close>

datatype main_pc =
    AwaitSignal        \<comment> \<open>blocked in \<open>sig := <-sigChan\<close>\<close>
  | InShutdown nat     \<comment> \<open>in \<open>srv.Shutdown(ctx)\<close>; the timeout of \<open>ctx\<close>\<close>
  | Exited

datatype go_pc =
    Spawned            \<comment> \<open>the \<open>go\<close> statement has run, the goroutine has not\<close>
  | InListenAndServe
  | Finished

datatype event =
    GoroutineStarts
  | ListenAndServeReturns "error option"
  | SignalArrives signal
  | ShutdownReturns

record process =
  mainpc :: main_pc
  gopc :: go_pc
  proclog :: "log_entry list"

definition main_start :: process where
  "main_start = \<lparr>mainpc = AwaitSignal, gopc = Spawned, proclog = []\<rparr>"

fun step :: "env \<Rightarrow> process \<Rightarrow> event \<Rightarrow> process" where
  "step e p GoroutineStarts =
     (if mainpc p \<noteq> Exited \<and> gopc p = Spawned
      then p\<lparr>gopc := InListenAndServe, proclog := proclog p @ [Listening (bindAddress e)]\<rparr>
      else p)"
| "step e p (ListenAndServeReturns err) =
     (if mainpc p \<noteq> Exited \<and> gopc p = InListenAndServe
      then (case err of
              Some msg \<Rightarrow> p\<lparr>gopc := Finished, proclog := proclog p @ [ListenAndServeError msg]\<rparr>
            | None \<Rightarrow> p\<lparr>gopc := Finished\<rparr>)
      else p)"
| "step e p (SignalArrives sig) =
     (if mainpc p = AwaitSignal
      then p\<lparr>mainpc := InShutdown (30 * Second), proclog := proclog p @ [ReceivedTerminate sig]\<rparr>
      else p)"
| "step e p ShutdownReturns =
     (case mainpc p of InShutdown d \<Rightarrow> p\<lparr>mainpc := Exited\<rparr> | _ \<Rightarrow> p)"

definition run :: "env \<Rightarrow> process \<Rightarrow> event list \<Rightarrow> process" where
  "run e p evs = foldl (step e) p evs"

subsection \<open>Sample environments\<close>

text \<open>
  Concrete collaborators, used to evaluate the model: a provider payload with one result
  for Los Angeles, a codec that knows this payload and rejects every other input without
  touching the value it decodes into, a matcher that knows three request paths, and a
  network on which every call fails.
\<close>

definition sample_json :: bytes where
  \<open>sample_json = ''{"results":[{"geometry":{"location":{"lat":34.0522342,"lng":-118.2436849},"location_type":"APPROXIMATE"},"formatted_address":"Los Angeles, CA, USA"}],"status":"OK"}''\<close>

definition sample_result :: result where
  "sample_result =
     \<lparr>Geometry =
        \<lparr>Location = \<lparr>Lat = 0x404106AF9C3A5DCA, Lng = 0xC05D8F98888D01DC\<rparr>,
         LocationType = ''APPROXIMATE''\<rparr>,
      Address = ''Los Angeles, CA, USA''\<rparr>"

definition sample_out :: bytes where
  \<open>sample_out = ''{"geometry":{"location":{"lat":34.0522342,"lng":-118.2436849},"location_type":"APPROXIMATE"},"formatted_address":"Los Angeles, CA, USA"}''\<close>

definition sample_Unmarshal :: "bytes \<Rightarrow> response \<Rightarrow> response \<times> error option" where
  "sample_Unmarshal raw v =
     (if raw = sample_json then (v\<lparr>Results := [sample_result], Status := ''OK''\<rparr>, None)
      else (v, Some ''unexpected end of JSON input''))"

definition sample_Marshal :: "result \<Rightarrow> bytes \<times> error option" where
  "sample_Marshal x =
     (if x = sample_result then (sample_out, None)
      else ([], Some ''json: unsupported value''))"

definition sample_RouteMatch :: "string \<Rightarrow> request \<Rightarrow> (string \<times> string) list option" where
  "sample_RouteMatch tpl r =
     (if tpl = ''/'' \<and> RequestURI r = ''/'' then Some []
      else if tpl = ''/geocode/{address}'' \<and> RequestURI r = ''/geocode/anything''
        then Some [(''address'', ''anything'')]
      else if tpl = ''/geocode/{address}'' \<and> RequestURI r = ''/geocode/other''
        then Some [(''address'', ''other'')]
      else if tpl = ''/geoloc/{lat},{lng}'' \<and> RequestURI r = ''/geoloc/34.05,-118.24''
        then Some [(''lat'', ''34.05''), (''lng'', ''-118.24'')]
      else None)"

text \<open>
  The answer of gorilla/mux to a request that matches no route: \<open>http.NotFound\<close>,
  called directly, not through the middlewares.
\<close>

definition sample_NoRoute :: "request \<Rightarrow> world \<Rightarrow> outcome \<times> world" where
  "sample_NoRoute r st =
     (let st1 = st\<lparr>rw := WriteHeader 404 (rw st)\<rparr>
      in (Returned, st1\<lparr>rw := Write (''404 page not found'' @ [nl]) (rw st1)\<rparr>))"

definition sample_env :: env where
  "sample_env =
     \<lparr>LookupEnv = (\<lambda>key. None),
      ReadFile = (\<lambda>name. if name = ''data/LA.json'' then (sample_json, None)
                          else ([], Some (''open '' @ name @ '': no such file or directory''))),
      Unmarshal = sample_Unmarshal,
      Marshal = sample_Marshal,
      Get = (\<lambda>url. (None, Some ''dial tcp: lookup maps.googleapis.com: no such host'')),
      RouteMatch = sample_RouteMatch,
      NoRoute = sample_NoRoute\<rparr>"

text \<open>The same environment with a fixture file that was cut off.\<close>

definition malformed_env :: env where
  \<open>malformed_env = sample_env\<lparr>ReadFile := (\<lambda>name. (''{"results":[{"geometry":'', None))\<rparr>\<close>

definition world0 :: world where
  "world0 = \<lparr>rw = fresh_writer, logger = [], stdout = []\<rparr>"

definition get_request :: "string \<Rightarrow> request" where
  "get_request uri = \<lparr>Method = ''GET'', RequestURI = uri, Vars = []\<rparr>"

section \<open>Properties\<close>

subsection \<open>Dispatch\<close>

lemma match_route_cases:
  assumes "match_route e routes r = Some (tpl, h, vs)"
  shows "(tpl = ''/'' \<and> h = HomeHandler)
       \<or> (tpl = ''/geocode/{address}'' \<and> h = GeocodeHandler)
       \<or> (tpl = ''/geoloc/{lat},{lng}'' \<and> h = GeolocHandler)"
  using assms by (auto simp: routes_def split: option.splits)

lemma served_by_middleware:
  assumes "match_route e routes r = Some (tpl, h, vs)"
  shows "router_ServeHTTP e r st =
           h e (r\<lparr>Vars := vs\<rparr>) (log_emit (RequestLine (Method r) (RequestURI r)) st)"
  using assms by (simp add: router_ServeHTTP_def middlewares_def LoggingMiddleware_def)

lemma rw_log_emit [simp]: "rw (log_emit x st) = rw st"
  by (simp add: log_emit_def)

lemma logger_log_emit [simp]: "logger (log_emit x st) = logger st @ [x]"
  by (simp add: log_emit_def)

lemma Write_fresh:
  "Write b (WriteHeader c fresh_writer) = \<lparr>wstatus = Some c, wbody = b\<rparr>"
  by (simp add: Write_def WriteHeader_def fresh_writer_def Let_def)

subsection \<open>The route \<open>/\<close>\<close>

lemma HomeHandler_eval:
  "HomeHandler e r st =
     (Returned, st\<lparr>rw := Write liveness (WriteHeader StatusOK (rw st))\<rparr>)"
  by (simp add: HomeHandler_def Let_def)

text \<open>
  Claim C7. Every request that the router resolves to the route \<open>/\<close> is answered with
  status 200 and the fixed liveness text \<open>Server is up and running!\<close> followed by a
  newline, and the handler returns normally.
\<close>

theorem home_route_response:
  assumes "match_route e routes r = Some (''/'', h, vs)"
      and "rw st = fresh_writer"
  shows "fst (router_ServeHTTP e r st) = Returned
       \<and> wstatus (rw (snd (router_ServeHTTP e r st))) = Some 200
       \<and> wbody (rw (snd (router_ServeHTTP e r st))) = ''Server is up and running!'' @ [nl]"
proof -
  from match_route_cases [OF assms(1)] have h: "h = HomeHandler"
    by simp
  show ?thesis
    unfolding served_by_middleware [OF assms(1)] h HomeHandler_eval
    by (simp add: assms(2) Write_fresh liveness_def StatusOK_def)
qed

theorem home_route_response_witness:
  "match_route sample_env routes (get_request ''/'') = Some (''/'', HomeHandler, [])
   \<and> rw world0 = fresh_writer
   \<and> fst (router_ServeHTTP sample_env (get_request ''/'') world0) = Returned
   \<and> wstatus (rw (snd (router_ServeHTTP sample_env (get_request ''/'') world0))) = Some 200
   \<and> wbody (rw (snd (router_ServeHTTP sample_env (get_request ''/'') world0)))
       = ''Server is up and running!'' @ [nl]"
proof -
  have m: "match_route sample_env routes (get_request ''/'') = Some (''/'', HomeHandler, [])"
    by (simp add: routes_def sample_env_def sample_RouteMatch_def get_request_def)
  have f: "rw world0 = fresh_writer"
    by (simp add: world0_def)
  show ?thesis
    using home_route_response [OF m f] m f by simp
qed

subsection \<open>The route \<open>/geoloc/{lat},{lng}\<close>\<close>

lemma GeolocHandler_eval:
  "GeolocHandler e r st =
     (Returned, st\<lparr>rw := Write (fmt_map (Vars r) @ [nl]) (WriteHeader StatusOK (rw st))\<rparr>)"
  by (simp add: GeolocHandler_def Let_def)

lemma sublist_join_space:
  "x \<in> set xs \<Longrightarrow> sublist x (join_space xs)"
proof (induction xs rule: join_space.induct)
  case 1
  then show ?case by simp
next
  case (2 y)
  then show ?case by simp
next
  case (3 y z zs)
  show ?case
  proof (cases "x = y")
    case True
    then show ?thesis by simp
  next
    case False
    with 3 have "sublist x (join_space (z # zs))" by simp
    then obtain ps ss where "join_space (z # zs) = ps @ x @ ss"
      by (auto simp: sublist_def)
    then have "join_space (y # z # zs) = (y @ '' '' @ ps) @ x @ ss"
      by simp
    then show ?thesis
      unfolding sublist_def by blast
  qed
qed

lemma sublist_fmt_map:
  assumes "(k, v) \<in> set m"
  shows "sublist v (fmt_map m)"
proof -
  have "fmt_entry (k, v) \<in> set (map fmt_entry (sort_key fst m))"
    using assms by force
  then have "sublist (fmt_entry (k, v)) (join_space (map fmt_entry (sort_key fst m)))"
    by (rule sublist_join_space)
  then obtain ps ss where
    "join_space (map fmt_entry (sort_key fst m)) = ps @ (k @ '':'' @ v) @ ss"
    by (auto simp: sublist_def fmt_entry_def)
  then have "fmt_map m = (''map['' @ ps @ k @ '':'') @ v @ (ss @ '']'')"
    by (simp add: fmt_map_def)
  then show ?thesis
    unfolding sublist_def by blast
qed

text \<open>
  Claim C8. Every request that the router resolves to the route \<open>/geoloc/{lat},{lng}\<close>,
  with the values \<open>lat\<close> and \<open>lng\<close> captured for the two path parameters, is answered
  with status 200 and a body in which both captured values occur verbatim, as contiguous
  substrings.
\<close>

theorem geoloc_route_response:
  assumes "match_route e routes r = Some (''/geoloc/{lat},{lng}'', h, vs)"
      and "(''lat'', lat) \<in> set vs"
      and "(''lng'', lng) \<in> set vs"
      and "rw st = fresh_writer"
  shows "fst (router_ServeHTTP e r st) = Returned
       \<and> wstatus (rw (snd (router_ServeHTTP e r st))) = Some 200
       \<and> sublist lat (wbody (rw (snd (router_ServeHTTP e r st))))
       \<and> sublist lng (wbody (rw (snd (router_ServeHTTP e r st))))"
proof -
  from match_route_cases [OF assms(1)] have h: "h = GeolocHandler"
    by simp
  have body: "wbody (rw (snd (router_ServeHTTP e r st))) = fmt_map vs @ [nl]"
    unfolding served_by_middleware [OF assms(1)] h GeolocHandler_eval
    by (simp add: assms(4) Write_fresh)
  have "sublist lat (fmt_map vs)" and "sublist lng (fmt_map vs)"
    using assms(2,3) by (simp_all add: sublist_fmt_map)
  then have "sublist lat (fmt_map vs @ [nl])" and "sublist lng (fmt_map vs @ [nl])"
    by (auto simp: sublist_append)
  moreover have "fst (router_ServeHTTP e r st) = Returned"
    and "wstatus (rw (snd (router_ServeHTTP e r st))) = Some 200"
    unfolding served_by_middleware [OF assms(1)] h GeolocHandler_eval
    by (simp_all add: assms(4) Write_fresh StatusOK_def)
  ultimately show ?thesis
    by (simp add: body)
qed

text \<open>The body in full, when the router captures exactly the two parameters.\<close>

lemma geoloc_body_exact:
  assumes "match_route e routes r = Some (''/geoloc/{lat},{lng}'', h, [(''lat'', lat), (''lng'', lng)])"
      and "rw st = fresh_writer"
  shows "wbody (rw (snd (router_ServeHTTP e r st)))
           = ''map[lat:'' @ lat @ '' lng:'' @ lng @ '']'' @ [nl]"
proof -
  from match_route_cases [OF assms(1)] have h: "h = GeolocHandler"
    by simp
  show ?thesis
    unfolding served_by_middleware [OF assms(1)] h GeolocHandler_eval
    by (simp add: assms(2) Write_fresh fmt_map_def fmt_entry_def)
qed

theorem geoloc_route_response_witness:
  "match_route sample_env routes (get_request ''/geoloc/34.05,-118.24'')
     = Some (''/geoloc/{lat},{lng}'', GeolocHandler, [(''lat'', ''34.05''), (''lng'', ''-118.24'')])
   \<and> rw world0 = fresh_writer
   \<and> fst (router_ServeHTTP sample_env (get_request ''/geoloc/34.05,-118.24'') world0) = Returned
   \<and> wstatus (rw (snd (router_ServeHTTP sample_env (get_request ''/geoloc/34.05,-118.24'') world0)))
       = Some 200
   \<and> sublist ''34.05''
       (wbody (rw (snd (router_ServeHTTP sample_env (get_request ''/geoloc/34.05,-118.24'') world0))))
   \<and> sublist ''-118.24''
       (wbody (rw (snd (router_ServeHTTP sample_env (get_request ''/geoloc/34.05,-118.24'') world0))))"
proof -
  have m: "match_route sample_env routes (get_request ''/geoloc/34.05,-118.24'')
     = Some (''/geoloc/{lat},{lng}'', GeolocHandler, [(''lat'', ''34.05''), (''lng'', ''-118.24'')])"
    by (simp add: routes_def sample_env_def sample_RouteMatch_def get_request_def)
  have f: "rw world0 = fresh_writer"
    by (simp add: world0_def)
  have a: "(''lat'', ''34.05'') \<in> set [(''lat'', ''34.05''), (''lng'', ''-118.24'')]"
    and b: "(''lng'', ''-118.24'') \<in> set [(''lat'', ''34.05''), (''lng'', ''-118.24'')]"
    by simp_all
  show ?thesis
    using geoloc_route_response [OF m a b f] m f by simp
qed

subsection \<open>The route \<open>/geocode/{address}\<close>\<close>

lemma GeocodeHandler_eval:
  "GeocodeHandler e r st =
     (let raw = fst (ReadFile e ''data/LA.json'');
          st1 = (case snd (ReadFile e ''data/LA.json'') of
                   Some msg \<Rightarrow> fmt_Println msg st | None \<Rightarrow> st);
          st2 = (case snd (Unmarshal e raw response_zero) of
                   Some msg \<Rightarrow> log_emit (UnmarshalError msg) st1 | None \<Rightarrow> st1);
          st3 = st2\<lparr>rw := WriteHeader StatusOK (rw st2)\<rparr>
      in case Results (fst (Unmarshal e raw response_zero)) of
           [] \<Rightarrow> (Panicked (IndexOutOfRange 0 0), st3)
         | first # rest \<Rightarrow> (Returned, st3\<lparr>rw := Write (fst (Marshal e first)) (rw st3)\<rparr>))"
  by (simp add: GeocodeHandler_def MockService_def Let_def index_slice_def case_prod_beta
      split: list.splits)

lemma rw_fmt_Println [simp]: "rw (fmt_Println msg st) = rw st"
  by (simp add: fmt_Println_def)

lemma logger_fmt_Println [simp]: "logger (fmt_Println msg st) = logger st"
  by (simp add: fmt_Println_def)

lemma GeocodeHandler_outcome:
  "fst (GeocodeHandler e r st) =
     (case Results (fst (Unmarshal e (fst (ReadFile e ''data/LA.json'')) response_zero)) of
        [] \<Rightarrow> Panicked (IndexOutOfRange 0 0)
      | first # rest \<Rightarrow> Returned)"
  by (simp add: GeocodeHandler_eval Let_def split: list.splits)

lemma GeocodeHandler_rw:
  "rw (snd (GeocodeHandler e r st)) =
     (case Results (fst (Unmarshal e (fst (ReadFile e ''data/LA.json'')) response_zero)) of
        [] \<Rightarrow> WriteHeader StatusOK (rw st)
      | first # rest \<Rightarrow> Write (fst (Marshal e first)) (WriteHeader StatusOK (rw st)))"
  by (simp add: GeocodeHandler_eval Let_def split: list.splits option.splits)

lemma GeocodeHandler_logger:
  "logger (snd (GeocodeHandler e r st)) =
     logger st @
       (case snd (Unmarshal e (fst (ReadFile e ''data/LA.json'')) response_zero) of
          Some msg \<Rightarrow> [UnmarshalError msg]
        | None \<Rightarrow> [])"
  by (simp add: GeocodeHandler_eval Let_def split: list.splits option.splits)

lemma GeocodeHandler_ignores_request:
  "GeocodeHandler e r st = GeocodeHandler e r' st"
  by (simp add: GeocodeHandler_eval)

text \<open>
  Claim C1. Every request that the router resolves to the route \<open>/geocode/{address}\<close>
  is answered from the fixture file: the handler decodes the file's contents, takes the
  first element of \<open>Results\<close> and answers with status 200 and a body equal to the
  encoding of that element alone. The request plays no part: two requests resolved to
  the route, whatever their \<open>address\<close>, get the same outcome and the same response. The
  first result has to exist, which is what selecting \<open>results[0]\<close> presupposes.
\<close>

theorem geocode_route_response:
  assumes "match_route e routes r = Some (''/geocode/{address}'', h, vs)"
      and "match_route e routes r' = Some (''/geocode/{address}'', h', vs')"
      and "rw st = fresh_writer"
      and "Results (fst (Unmarshal e (fst (ReadFile e ''data/LA.json'')) response_zero))
             = first # rest"
  shows "fst (router_ServeHTTP e r st) = Returned
       \<and> wstatus (rw (snd (router_ServeHTTP e r st))) = Some 200
       \<and> wbody (rw (snd (router_ServeHTTP e r st))) = fst (Marshal e first)
       \<and> fst (router_ServeHTTP e r' st) = fst (router_ServeHTTP e r st)
       \<and> rw (snd (router_ServeHTTP e r' st)) = rw (snd (router_ServeHTTP e r st))"
proof -
  from match_route_cases [OF assms(1)] have h: "h = GeocodeHandler"
    by simp
  from match_route_cases [OF assms(2)] have h': "h' = GeocodeHandler"
    by simp
  have "fst (router_ServeHTTP e r st) = Returned"
    unfolding served_by_middleware [OF assms(1)] h
    by (simp add: GeocodeHandler_outcome assms(4))
  moreover have "rw (snd (router_ServeHTTP e r st))
                   = \<lparr>wstatus = Some StatusOK, wbody = fst (Marshal e first)\<rparr>"
    unfolding served_by_middleware [OF assms(1)] h
    by (simp add: GeocodeHandler_rw assms(3,4) Write_fresh)
  moreover have "fst (router_ServeHTTP e r' st) = fst (router_ServeHTTP e r st)"
    unfolding served_by_middleware [OF assms(1)] served_by_middleware [OF assms(2)] h h'
    by (simp add: GeocodeHandler_outcome)
  moreover have "rw (snd (router_ServeHTTP e r' st)) = rw (snd (router_ServeHTTP e r st))"
    unfolding served_by_middleware [OF assms(1)] served_by_middleware [OF assms(2)] h h'
    by (simp add: GeocodeHandler_rw split: list.splits)
  ultimately show ?thesis
    by (simp add: StatusOK_def)
qed

text \<open>The request plays no part whether or not the payload has a result.\<close>

lemma geocode_route_address_irrelevant:
  assumes "match_route e routes r = Some (''/geocode/{address}'', h, vs)"
      and "match_route e routes r' = Some (''/geocode/{address}'', h', vs')"
  shows "fst (router_ServeHTTP e r' st) = fst (router_ServeHTTP e r st)
       \<and> rw (snd (router_ServeHTTP e r' st)) = rw (snd (router_ServeHTTP e r st))"
proof -
  from match_route_cases [OF assms(1)] have h: "h = GeocodeHandler"
    by simp
  from match_route_cases [OF assms(2)] have h': "h' = GeocodeHandler"
    by simp
  show ?thesis
    unfolding served_by_middleware [OF assms(1)] served_by_middleware [OF assms(2)] h h'
    by (simp add: GeocodeHandler_outcome GeocodeHandler_rw split: list.splits)
qed

lemma sample_decoded:
  "fst (Unmarshal sample_env (fst (ReadFile sample_env ''data/LA.json'')) response_zero)
     = \<lparr>Results = [sample_result], Status = ''OK''\<rparr>"
  by (simp add: sample_env_def sample_Unmarshal_def response_zero_def)

theorem geocode_route_response_witness:
  "match_route sample_env routes (get_request ''/geocode/anything'')
     = Some (''/geocode/{address}'', GeocodeHandler, [(''address'', ''anything'')])
   \<and> match_route sample_env routes (get_request ''/geocode/other'')
     = Some (''/geocode/{address}'', GeocodeHandler, [(''address'', ''other'')])
   \<and> rw world0 = fresh_writer
   \<and> Results (fst (Unmarshal sample_env (fst (ReadFile sample_env ''data/LA.json''))
        response_zero)) = sample_result # []
   \<and> fst (router_ServeHTTP sample_env (get_request ''/geocode/anything'') world0) = Returned
   \<and> wstatus (rw (snd (router_ServeHTTP sample_env (get_request ''/geocode/anything'') world0)))
       = Some 200
   \<and> wbody (rw (snd (router_ServeHTTP sample_env (get_request ''/geocode/anything'') world0)))
       = sample_out
   \<and> rw (snd (router_ServeHTTP sample_env (get_request ''/geocode/other'') world0))
       = rw (snd (router_ServeHTTP sample_env (get_request ''/geocode/anything'') world0))"
proof -
  have m: "match_route sample_env routes (get_request ''/geocode/anything'')
     = Some (''/geocode/{address}'', GeocodeHandler, [(''address'', ''anything'')])"
    by (simp add: routes_def sample_env_def sample_RouteMatch_def get_request_def)
  have m': "match_route sample_env routes (get_request ''/geocode/other'')
     = Some (''/geocode/{address}'', GeocodeHandler, [(''address'', ''other'')])"
    by (simp add: routes_def sample_env_def sample_RouteMatch_def get_request_def)
  have f: "rw world0 = fresh_writer"
    by (simp add: world0_def)
  have d: "Results (fst (Unmarshal sample_env (fst (ReadFile sample_env ''data/LA.json''))
        response_zero)) = sample_result # []"
    by (simp add: sample_decoded)
  have out: "fst (Marshal sample_env sample_result) = sample_out"
    by (simp add: sample_env_def sample_Marshal_def)
  show ?thesis
    using geocode_route_response [OF m m' f d] m m' f d out by simp
qed

text \<open>
  Claim C2. When decoding the provider payload leaves \<open>Results\<close> empty (an empty
  array, or malformed JSON, which the decoder rejects without touching the zero value),
  the unchecked \<open>resp.Results[0]\<close> is out of range: the handler panics with index 0 and
  length 0 and does not return normally.
\<close>

theorem geocode_empty_results_panics:
  assumes "Results (fst (Unmarshal e (fst (ReadFile e ''data/LA.json'')) response_zero)) = []"
  shows "fst (GeocodeHandler e r st) = Panicked (IndexOutOfRange 0 0)
       \<and> fst (GeocodeHandler e r st) \<noteq> Returned"
  by (simp add: GeocodeHandler_outcome assms)

lemma Results_response_zero: "Results response_zero = []"
  by (simp add: response_zero_def)

lemma malformed_decoded:
  "Unmarshal malformed_env (fst (ReadFile malformed_env ''data/LA.json'')) response_zero
     = (response_zero, Some ''unexpected end of JSON input'')"
  by (simp add: malformed_env_def sample_env_def sample_Unmarshal_def sample_json_def)

theorem geocode_empty_results_panics_witness:
  "Results (fst (Unmarshal malformed_env (fst (ReadFile malformed_env ''data/LA.json''))
      response_zero)) = []
   \<and> fst (GeocodeHandler malformed_env (get_request ''/geocode/anything'') world0)
       = Panicked (IndexOutOfRange 0 0)
   \<and> fst (GeocodeHandler malformed_env (get_request ''/geocode/anything'') world0) \<noteq> Returned"
proof -
  have d: "Results (fst (Unmarshal malformed_env (fst (ReadFile malformed_env ''data/LA.json''))
      response_zero)) = []"
    by (simp add: malformed_decoded Results_response_zero)
  show ?thesis
    using geocode_empty_results_panics [OF d] d by simp
qed

text \<open>The same through the router, for a request resolved to the route.\<close>

lemma geocode_route_empty_results_panics:
  assumes "match_route e routes r = Some (''/geocode/{address}'', h, vs)"
      and "Results (fst (Unmarshal e (fst (ReadFile e ''data/LA.json'')) response_zero)) = []"
  shows "fst (router_ServeHTTP e r st) = Panicked (IndexOutOfRange 0 0)"
proof -
  from match_route_cases [OF assms(1)] have h: "h = GeocodeHandler"
    by simp
  show ?thesis
    unfolding served_by_middleware [OF assms(1)] h
    by (simp add: GeocodeHandler_outcome assms(2))
qed

text \<open>
  Claim C10. The handler writes the 200 status header before it indexes
  \<open>resp.Results[0]\<close> and before it serialises: for every environment, so for every
  provider payload, the response writer holds status 200 when the handler is done,
  whether it returned or panicked. A decoding error is only logged and the handler goes
  on; the error of \<open>json.Marshal\<close> is discarded, so replacing it by any other error
  changes nothing.
\<close>

theorem geocode_status_committed:
  assumes "wstatus (rw st) = None"
  shows "wstatus (rw (snd (GeocodeHandler e r st))) = Some 200
       \<and> logger (snd (GeocodeHandler e r st)) =
           logger st @
             (case snd (Unmarshal e (fst (ReadFile e ''data/LA.json'')) response_zero) of
                Some msg \<Rightarrow> [UnmarshalError msg]
              | None \<Rightarrow> [])
       \<and> GeocodeHandler (e\<lparr>Marshal := \<lambda>x. (fst (Marshal e x), err x)\<rparr>) r st
           = GeocodeHandler e r st"
proof -
  have "wstatus (rw (snd (GeocodeHandler e r st))) = Some 200"
    using assms
    by (simp add: GeocodeHandler_rw Write_def WriteHeader_def StatusOK_def Let_def
        split: list.splits)
  moreover have "GeocodeHandler (e\<lparr>Marshal := \<lambda>x. (fst (Marshal e x), err x)\<rparr>) r st
           = GeocodeHandler e r st"
    by (simp add: GeocodeHandler_eval Let_def split: list.splits)
  ultimately show ?thesis
    by (simp add: GeocodeHandler_logger)
qed

theorem geocode_status_committed_witness:
  "wstatus (rw world0) = None
   \<and> fst (GeocodeHandler malformed_env (get_request ''/geocode/anything'') world0)
       = Panicked (IndexOutOfRange 0 0)
   \<and> wstatus (rw (snd (GeocodeHandler malformed_env (get_request ''/geocode/anything'') world0)))
       = Some 200
   \<and> logger (snd (GeocodeHandler malformed_env (get_request ''/geocode/anything'') world0))
       = [UnmarshalError ''unexpected end of JSON input'']"
proof -
  have f: "wstatus (rw world0) = None"
    by (simp add: world0_def fresh_writer_def)
  have p: "fst (GeocodeHandler malformed_env (get_request ''/geocode/anything'') world0)
       = Panicked (IndexOutOfRange 0 0)"
    by (simp add: GeocodeHandler_outcome malformed_decoded Results_response_zero)
  have l: "logger world0 = []"
    by (simp add: world0_def)
  show ?thesis
    using geocode_status_committed [OF f, of malformed_env "get_request ''/geocode/anything''"] f p
    by (simp add: malformed_decoded l)
qed

subsection \<open>The logging middleware\<close>

lemma render_RequestLine_records:
  "sublist m (render (RequestLine m u)) \<and> sublist u (render (RequestLine m u))"
proof -
  have "render (RequestLine m u) = [tab] @ m @ ('' '' @ [tab] @ '' '' @ u @ '' '' @ [nl])"
    and "render (RequestLine m u) = ([tab] @ m @ '' '' @ [tab] @ '' '') @ u @ ('' '' @ [nl])"
    by simp_all
  then show ?thesis
    unfolding sublist_def by blast
qed

lemma LoggingMiddleware_forwards:
  "LoggingMiddleware next e r st =
     next e r (st\<lparr>logger := logger st @ [RequestLine (Method r) (RequestURI r)]\<rparr>)"
  by (simp add: LoggingMiddleware_def log_emit_def)







subsection \<open>The external geocoding call\<close>

text \<open>
  A response that is not nil is read and returned whatever its status code and whatever
  the error of reading it; a nil response makes the call panic.
\<close>

lemma callExternalService_nil_response:
  assumes "fst (Get e (geoServiceUrl (googleAPIKey e) serviceName param)) = None"
  shows "fst (callExternalService e serviceName param st) = Inl NilPointerDereference"
  using assms
  by (simp add: callExternalService_def Let_def case_prod_beta)

lemma callExternalService_returns_body:
  assumes "fst (Get e (geoServiceUrl (googleAPIKey e) serviceName param)) = Some rsp"
  shows "fst (callExternalService e serviceName param st) = Inr (fst (Body rsp))"
  using assms
  by (simp add: callExternalService_def Let_def case_prod_beta)

text \<open>
  Claim C5 says that an upstream failure is only logged and that the call goes on and
  returns a body. On a network failure \<open>http.Get\<close> returns a nil response with the
  error; the call prints the error and then panics on \<open>resp.Body\<close>, as evaluated here
  for a lookup of \<open>LA\<close> on a network where every call fails.
\<close>

theorem callExternalService_network_failure:
  "callExternalService sample_env serviceParamNameAddress ''LA'' world0 =
     (Inl NilPointerDereference,
      world0\<lparr>logger :=
               [AboutToCall ''https://maps.googleapis.com/maps/api/geocode/json?address=LA&key=''],
             stdout := [''dial tcp: lookup maps.googleapis.com: no such host'' @ [nl]]\<rparr>)"
  by (simp add: callExternalService_def sample_env_def geoServiceUrl_def googleAPIKey_def
      DefaultENV_def serviceParamNameAddress_def log_emit_def fmt_Println_def world0_def)

subsection \<open>Configuration\<close>

text \<open>
  Claim C9. The bind address is the value of \<open>BIND_ADDRESS\<close> in the process
  environment, and \<open>:5000\<close> when the variable is unset; the API key is the value of
  \<open>GOOGLE_API_KEY\<close>, and the empty string when that variable is unset.
\<close>

theorem configuration_defaults:
  "bindAddress e = (case LookupEnv e ''BIND_ADDRESS'' of None \<Rightarrow> '':5000'' | Some val \<Rightarrow> val)
   \<and> googleAPIKey e = (case LookupEnv e ''GOOGLE_API_KEY'' of None \<Rightarrow> '''' | Some val \<Rightarrow> val)"
  by (simp add: bindAddress_def googleAPIKey_def DefaultENV_def split: option.splits)

theorem configuration_defaults_witness:
  "LookupEnv sample_env ''BIND_ADDRESS'' = None
   \<and> LookupEnv sample_env ''GOOGLE_API_KEY'' = None
   \<and> bindAddress sample_env = '':5000''
   \<and> googleAPIKey sample_env = ''''"
proof -
  have u: "LookupEnv sample_env ''BIND_ADDRESS'' = None"
    "LookupEnv sample_env ''GOOGLE_API_KEY'' = None"
    by (simp_all add: sample_env_def)
  show ?thesis
    using configuration_defaults [of sample_env] u by simp
qed

subsection \<open>Process lifecycle\<close>

lemma step_blocked:
  assumes "mainpc p = AwaitSignal" and "gopc p = Finished" and "\<forall>sig. ev \<noteq> SignalArrives sig"
  shows "step e p ev = p"
  using assms by (cases ev) simp_all

lemma run_blocked:
  assumes "mainpc p = AwaitSignal" and "gopc p = Finished"
      and "\<forall>sig. SignalArrives sig \<notin> set evs"
  shows "run e p evs = p"
  using assms(3) unfolding run_def
proof (induction evs)
  case Nil
  then show ?case by simp
next
  case (Cons ev evs)
  then have "step e p ev = p"
    using assms(1,2) by (intro step_blocked) auto
  with Cons show ?case by simp
qed

lemma step_no_signal_main:
  assumes "mainpc p = AwaitSignal" and "\<forall>sig. ev \<noteq> SignalArrives sig"
  shows "mainpc (step e p ev) = AwaitSignal"
  using assms by (cases ev) (simp_all split: option.splits)

lemma run_no_signal_main:
  assumes "\<forall>sig. SignalArrives sig \<notin> set evs" and "mainpc p = AwaitSignal"
  shows "mainpc (run e p evs) = AwaitSignal"
  using assms unfolding run_def
proof (induction evs arbitrary: p)
  case Nil
  then show ?case by simp
next
  case (Cons ev evs)
  then have "mainpc (step e p ev) = AwaitSignal"
    by (intro step_no_signal_main) auto
  with Cons show ?case by simp
qed

text \<open>
  Claim C6. When the listener cannot be established, \<open>ListenAndServe\<close> returns an
  error to the goroutine, which logs it and ends. Whatever happens afterwards, as long
  as no signal arrives, the main flow stays blocked on the signal channel: the process
  has not exited, nothing is listening, and the log holds the two lines of the goroutine.
\<close>

theorem bind_failure_leaves_main_blocked:
  assumes "\<forall>sig. SignalArrives sig \<notin> set evs"
  shows "run e main_start (GoroutineStarts # ListenAndServeReturns (Some msg) # evs) =
           \<lparr>mainpc = AwaitSignal, gopc = Finished,
            proclog = [Listening (bindAddress e), ListenAndServeError msg]\<rparr>"
proof -
  let ?p = "\<lparr>mainpc = AwaitSignal, gopc = Finished,
            proclog = [Listening (bindAddress e), ListenAndServeError msg]\<rparr>"
  have "run e main_start (GoroutineStarts # ListenAndServeReturns (Some msg) # evs)
          = run e ?p evs"
    by (simp add: run_def main_start_def)
  also have "\<dots> = ?p"
    using assms by (intro run_blocked) simp_all
  finally show ?thesis .
qed

theorem bind_failure_leaves_main_blocked_witness:
  "(\<forall>sig. SignalArrives sig \<notin> set [ShutdownReturns, GoroutineStarts, ListenAndServeReturns None])
   \<and> run sample_env main_start
       (GoroutineStarts
          # ListenAndServeReturns (Some ''listen tcp :5000: bind: address already in use'')
          # [ShutdownReturns, GoroutineStarts, ListenAndServeReturns None])
     = \<lparr>mainpc = AwaitSignal, gopc = Finished,
        proclog = [Listening '':5000'',
                   ListenAndServeError ''listen tcp :5000: bind: address already in use'']\<rparr>"
proof -
  have n: "\<forall>sig. SignalArrives sig \<notin> set [ShutdownReturns, GoroutineStarts, ListenAndServeReturns None]"
    by simp
  have a: "bindAddress sample_env = '':5000''"
    by (simp add: bindAddress_def DefaultENV_def sample_env_def)
  show ?thesis
    using bind_failure_leaves_main_blocked [OF n, of sample_env] n a by simp
qed

text \<open>
  The other path of \<open>main\<close>: only a signal lets the main flow leave the receive; it
  then calls \<open>Shutdown\<close> with a context whose timeout is always 30 seconds, and returns
  when \<open>Shutdown\<close> does; after that nothing happens any more.
\<close>

lemma run_snoc: "run e p (evs @ [ev]) = step e (run e p evs) ev"
  by (simp add: run_def)

lemma exited_is_final:
  assumes "mainpc p = Exited"
  shows "run e p evs = p"
proof (induction evs rule: rev_induct)
  case Nil
  then show ?case by (simp add: run_def)
next
  case (snoc ev evs)
  then show ?case
    using assms by (cases ev) (simp_all add: run_snoc)
qed

lemma exit_needs_signal:
  assumes "mainpc (run e main_start evs) = Exited"
  shows "\<exists>sig. SignalArrives sig \<in> set evs"
proof (rule ccontr)
  assume "\<not> (\<exists>sig. SignalArrives sig \<in> set evs)"
  then have "mainpc (run e main_start evs) = AwaitSignal"
    by (intro run_no_signal_main) (simp_all add: main_start_def)
  with assms show False by simp
qed

lemma shutdown_timeout_fixed:
  assumes "mainpc (run e main_start evs) = InShutdown d"
  shows "d = 30000000000"
  using assms
proof (induction evs arbitrary: d rule: rev_induct)
  case Nil
  then show ?case by (simp add: run_def main_start_def)
next
  case (snoc ev evs)
  then show ?case
    by (cases ev) (auto simp: run_snoc Second_def split: if_splits main_pc.splits option.splits)
qed

lemma signal_then_shutdown_returns:
  "run e main_start [GoroutineStarts, SignalArrives sig, ShutdownReturns] =
     \<lparr>mainpc = Exited, gopc = InListenAndServe,
      proclog = [Listening (bindAddress e), ReceivedTerminate sig]\<rparr>"
  by (simp add: run_def main_start_def)

end
